theory Spec2Isabelle
  imports Main "HOL-Library.AList"
begin

section \<open>Python values used by the orchestrator\<close>

text \<open>
  Values that cross the JSON boundary (task metadata, results, the persisted task and
  history dictionaries). A Python \<open>dict\<close> keeps insertion order, so it is an association
  list: \<open>d[k] = v\<close> is \<open>AList.update k v d\<close> (an existing key keeps its position, a new
  key goes to the end), \<open>del d[k]\<close> is \<open>AList.delete k d\<close>, \<open>d.get(k)\<close> is \<open>map_of d k\<close>.
\<close>

datatype json =
    JNull
  | JBool bool
  | JNum int
  | JStr string
  | JArr "json list"
  | JObj "(string \<times> json) list"

type_synonym dict = "(string \<times> json) list"

text \<open>\<open>str(n)\<close> for a non-negative integer: its decimal digits.\<close>

fun str_nat :: "nat \<Rightarrow> string" where
  "str_nat n =
     (if n < 10 then [''0123456789'' ! n]
      else str_nat (n div 10) @ [''0123456789'' ! (n mod 10)])"

declare str_nat.simps [simp del]

text \<open>
  \<open>str.lower()\<close> on the ASCII letters; every other character is left as it is.
\<close>

definition lower_char :: "char \<Rightarrow> char" where
  "lower_char c =
     (case map_of (zip ''ABCDEFGHIJKLMNOPQRSTUVWXYZ'' ''abcdefghijklmnopqrstuvwxyz'') c of
        None \<Rightarrow> c
      | Some l \<Rightarrow> l)"

definition lower :: "string \<Rightarrow> string" where
  "lower s = map lower_char s"

text \<open>\<open>sub in s\<close> on strings: \<open>sub\<close> occurs in \<open>s\<close> as a contiguous piece.\<close>

fun startswith :: "string \<Rightarrow> string \<Rightarrow> bool" where
  "startswith s [] = True"
| "startswith [] (c # sub) = False"
| "startswith (d # s) (c # sub) = (d = c \<and> startswith s sub)"

fun str_in :: "string \<Rightarrow> string \<Rightarrow> bool" where
  "str_in sub [] = (sub = [])"
| "str_in sub (d # s) = (startswith (d # s) sub \<or> str_in sub s)"

section \<open>planner/task\_planner.py\<close>

datatype TaskStatus = PENDING | IN_PROGRESS | COMPLETED | FAILED

text \<open>
  The dataclass \<open>Task\<close>. Its field \<open>id\<close> is \<open>task_id\<close> here (\<open>id\<close> is the identity
  function of HOL). \<open>result\<close> and \<open>error\<close> are \<open>None\<close> until set.
\<close>

record Task =
  task_id :: string
  description :: string
  status :: TaskStatus
  result :: "json option"
  error :: "string option"
  metadata :: dict

text \<open>
  \<open>TaskPlanner\<close>: the dict \<open>tasks\<close> from id to task, in insertion order, and the
  pointer \<open>current_task_id\<close>. Calls to \<open>logger\<close> write no state and are left out.
\<close>

record TaskPlanner =
  tasks :: "(string \<times> Task) list"
  current_task_id :: "string option"

definition init_planner :: TaskPlanner where
  "init_planner = \<lparr>tasks = [], current_task_id = None\<rparr>"

text \<open>
  \<open>create_task\<close>: the id is made from the number of tasks stored at the moment of the
  call, and the task is stored under it with \<open>self.tasks[task_id] = task\<close>.
\<close>

definition create_task :: "string \<Rightarrow> dict option \<Rightarrow> TaskPlanner \<Rightarrow> Task \<times> TaskPlanner" where
  "create_task descr meta p =
     (let tid = ''task_'' @ str_nat (length (tasks p) + 1);
          task = \<lparr>task_id = tid, description = descr, status = PENDING,
                  result = None, error = None,
                  metadata = (case meta of None \<Rightarrow> [] | Some m \<Rightarrow> m)\<rparr>
      in (task, p\<lparr>tasks := AList.update tid task (tasks p)\<rparr>))"

definition get_task :: "string \<Rightarrow> TaskPlanner \<Rightarrow> Task option" where
  "get_task tid p = map_of (tasks p) tid"

text \<open>
  \<open>update_task_status\<close>: an unknown id returns \<open>False\<close> and changes nothing; a known
  one has its status, result and error overwritten with the arguments, whatever they
  were before.
\<close>

definition update_task_status ::
  "string \<Rightarrow> TaskStatus \<Rightarrow> json option \<Rightarrow> string option \<Rightarrow> TaskPlanner \<Rightarrow> bool \<times> TaskPlanner" where
  "update_task_status tid st res err p =
     (case map_of (tasks p) tid of
        None \<Rightarrow> (False, p)
      | Some task \<Rightarrow>
          (True, p\<lparr>tasks := AList.update tid
                     (task\<lparr>status := st, result := res, error := err\<rparr>) (tasks p)\<rparr>))"

text \<open>
  The list displays of \<open>plan_tasks\<close> call \<open>create_task\<close> once per element, left to
  right, each call seeing the tasks the earlier ones stored.
\<close>

fun create_tasks :: "(string \<times> dict) list \<Rightarrow> TaskPlanner \<Rightarrow> Task list \<times> TaskPlanner" where
  "create_tasks [] p = ([], p)"
| "create_tasks ((descr, meta) # rest) p =
     (let (t, p1) = create_task descr (Some meta) p;
          (ts, p2) = create_tasks rest p1
      in (t # ts, p2))"

definition login_template :: "(string \<times> dict) list" where
  "login_template =
     [(''Locate login page files'',
         [(''type'', JStr ''file_discovery''),
          (''patterns'', JArr [JStr ''*login*.{js,jsx,ts,tsx,html,css,scss}''])]),
      (''Analyze current layout structure'',
         [(''type'', JStr ''code_analysis''), (''target'', JStr ''login_component'')]),
      (''Update CSS for modern styling'',
         [(''type'', JStr ''code_modification''), (''target'', JStr ''login_styles'')]),
      (''Ensure responsive design'',
         [(''type'', JStr ''code_modification''), (''target'', JStr ''responsive_design'')]),
      (''Test across different screen sizes'',
         [(''type'', JStr ''testing''), (''target'', JStr ''responsive_testing'')])]"

definition api_template :: "(string \<times> dict) list" where
  "api_template =
     [(''Identify API endpoint requirements'',
         [(''type'', JStr ''analysis''), (''target'', JStr ''api_requirements'')]),
      (''Create API endpoint implementation'',
         [(''type'', JStr ''code_creation''), (''target'', JStr ''api_implementation'')]),
      (''Add input validation'',
         [(''type'', JStr ''code_modification''), (''target'', JStr ''input_validation'')]),
      (''Write unit tests'',
         [(''type'', JStr ''testing''), (''target'', JStr ''unit_tests'')])]"

text \<open>
  \<open>plan_tasks\<close>. The first statement rebinds \<open>command\<close> to its lower-cased form, and
  everything after it, the default task included, uses the rebound name.
\<close>

definition plan_tasks :: "string \<Rightarrow> TaskPlanner \<Rightarrow> Task list \<times> TaskPlanner" where
  "plan_tasks command0 p =
     (let command = lower command0;
          (ts, p1) =
            (if str_in ''login'' command \<and> (str_in ''layout'' command \<or> str_in ''style'' command)
             then create_tasks login_template p
             else if str_in ''api'' command \<and> (str_in ''add'' command \<or> str_in ''create'' command)
             then create_tasks api_template p
             else create_tasks
                    [(''Process command: '' @ command,
                      [(''type'', JStr ''general''), (''command'', JStr command)])] p)
      in (ts, case ts of [] \<Rightarrow> p1 | t # _ \<Rightarrow> p1\<lparr>current_task_id := Some (task_id t)\<rparr>))"

text \<open>
  \<open>not self.current_task_id\<close> holds for \<open>None\<close> and for the empty string.
\<close>

definition no_current :: "TaskPlanner \<Rightarrow> bool" where
  "no_current p = (case current_task_id p of None \<Rightarrow> True | Some c \<Rightarrow> c = [])"

definition get_current_task :: "TaskPlanner \<Rightarrow> Task option" where
  "get_current_task p =
     (if no_current p then None else get_task (the (current_task_id p)) p)"

text \<open>
  The first loop of \<open>complete_current_task\<close>: the index of the first task whose id is the
  current one, or \<open>-1\<close> when the loop ends without a \<open>break\<close>.
\<close>

fun find_current_idx :: "string \<Rightarrow> Task list \<Rightarrow> int \<Rightarrow> int" where
  "find_current_idx cid [] i = -1"
| "find_current_idx cid (t # ts) i =
     (if task_id t = cid then i else find_current_idx cid ts (i + 1))"

text \<open>
  \<open>complete_current_task\<close>: without a current task it returns \<open>None\<close> at once. Otherwise
  the current task is marked completed through \<open>update_task_status\<close> (its result is
  ignored), the values of the dict are listed, and the first pending task after the
  current one's index becomes the current task and is returned.
\<close>

definition complete_current_task :: "json option \<Rightarrow> TaskPlanner \<Rightarrow> Task option \<times> TaskPlanner" where
  "complete_current_task res p =
     (if no_current p then (None, p)
      else
        let cid = the (current_task_id p);
            p1 = snd (update_task_status cid COMPLETED res None p);
            task_list = map snd (tasks p1);
            current_idx = find_current_idx cid task_list 0;
            next_task = List.find (\<lambda>t. status t = PENDING)
                          (drop (nat (current_idx + 1)) task_list)
        in (next_task, p1\<lparr>current_task_id := map_option task_id next_task\<rparr>))"

text \<open>
  \<open>clear_completed_tasks\<close>: the ids of the completed tasks are collected first; then
  each is deleted, and the current pointer is cleared when it names a deleted task.
\<close>

definition clear_one :: "string \<Rightarrow> TaskPlanner \<Rightarrow> TaskPlanner" where
  "clear_one tid p =
     p\<lparr>tasks := AList.delete tid (tasks p),
       current_task_id := (if current_task_id p = Some tid then None else current_task_id p)\<rparr>"

definition clear_completed_tasks :: "TaskPlanner \<Rightarrow> TaskPlanner" where
  "clear_completed_tasks p =
     (let completed_ids = map fst (filter (\<lambda>(k, t). status t = COMPLETED) (tasks p))
      in fold clear_one completed_ids p)"

section \<open>main.py\<close>

text \<open>
  The orchestrator \<open>VoiceIDE\<close> keeps its tasks and its history events as dictionaries
  and mirrors them in two JSON files. A file is absent, or cannot be read (\<open>open\<close> or
  \<open>json.load\<close> raises, with the given message), or holds the list of dictionaries that
  \<open>json.dump\<close> wrote: what \<open>json.load\<close> returns for it is that list. Only documents
  of the annotated type \<open>List[Dict[str, Any]]\<close> are modelled.
\<close>

datatype json_file = Absent | Unreadable string | Doc "dict list"

datatype level = INFO | WARNING | ERROR

text \<open>
  The object's fields, followed by what it reads and writes outside itself: the two
  files, whether opening them for writing raises (\<open>write_error\<close>, the exception's
  message), and the records handed to \<open>logger\<close>. Output to the console is not state and
  is left out.
\<close>

record VoiceIDE =
  running :: bool
  current_task :: "dict option"
  task_queue :: "dict list"
  history :: "dict list"
  tasks_file :: json_file
  history_file :: json_file
  write_error :: "string option"
  logged :: "(level \<times> string) list"

text \<open>
  \<open>load_state\<close>. Both reads sit in one \<open>try\<close>: the first exception ends the body, is
  logged as a warning by the \<open>except\<close> clause and goes no further; what was assigned
  before it stays assigned.
\<close>

definition load_failed :: "string \<Rightarrow> VoiceIDE \<Rightarrow> VoiceIDE" where
  "load_failed e s =
     s\<lparr>logged := logged s @ [(WARNING, ''Failed to load previous state: '' @ e)]\<rparr>"

definition load_history :: "VoiceIDE \<Rightarrow> VoiceIDE" where
  "load_history s =
     (case history_file s of
        Absent \<Rightarrow> s
      | Unreadable e \<Rightarrow> load_failed e s
      | Doc h \<Rightarrow>
          s\<lparr>history := h,
            logged := logged s @ [(INFO, ''Loaded '' @ str_nat (length h) @ '' history items'')]\<rparr>)"

definition load_state :: "VoiceIDE \<Rightarrow> VoiceIDE" where
  "load_state s =
     (case tasks_file s of
        Absent \<Rightarrow> load_history s
      | Unreadable e \<Rightarrow> load_failed e s
      | Doc q \<Rightarrow>
          load_history
            (s\<lparr>task_queue := q,
               logged := logged s @ [(INFO, ''Loaded '' @ str_nat (length q) @ '' pending tasks'')]\<rparr>))"

text \<open>
  \<open>__init__\<close> followed by \<open>setup_workspace\<close>: empty fields, then \<open>load_state\<close> on the
  files found in the workspace directory.
\<close>

definition new_VoiceIDE :: "json_file \<Rightarrow> json_file \<Rightarrow> string option \<Rightarrow> VoiceIDE" where
  "new_VoiceIDE tf hf we =
     load_state
       \<lparr>running = False, current_task = None, task_queue = [], history = [],
        tasks_file = tf, history_file = hf, write_error = we, logged = []\<rparr>"

text \<open>
  \<open>save_state\<close>: the queue is written whole, the history cut to \<open>self.history[-100:]\<close>;
  the list in memory is not touched. An exception is logged as an error.
\<close>

definition save_state :: "VoiceIDE \<Rightarrow> VoiceIDE" where
  "save_state s =
     (case write_error s of
        Some e \<Rightarrow> s\<lparr>logged := logged s @ [(ERROR, ''Failed to save state: '' @ e)]\<rparr>
      | None \<Rightarrow>
          s\<lparr>tasks_file := Doc (task_queue s),
            history_file := Doc (drop (length (history s) - 100) (history s))\<rparr>)"

text \<open>
  \<open>get_status\<close>. An empty dict counts as no current task. The description is sliced
  with \<open>[:20]\<close> and put into an f-string: a string is cut to its first 20 characters, a
  list to its first 20 elements and then printed by Python's \<open>format\<close> (the parameter
  \<open>py_format\<close>), and any other value cannot be sliced and raises.
\<close>

datatype py_error = KeyError string | TypeError

definition get_status :: "(json \<Rightarrow> string) \<Rightarrow> VoiceIDE \<Rightarrow> py_error + string" where
  "get_status py_format s =
     (if current_task s \<noteq> None \<and> current_task s \<noteq> Some [] then
        (case map_of (the (current_task s)) ''description'' of
           None \<Rightarrow> Inr (''working on: '' @ take 20 ''task'' @ ''...'')
         | Some (JStr d) \<Rightarrow> Inr (''working on: '' @ take 20 d @ ''...'')
         | Some (JArr ds) \<Rightarrow> Inr (''working on: '' @ py_format (JArr (take 20 ds)) @ ''...'')
         | Some _ \<Rightarrow> Inl TypeError)
      else if task_queue s \<noteq> [] then
        Inr (str_nat (length (task_queue s)) @ '' tasks queued'')
      else Inr ''ready'')"

text \<open>
  What the world outside answers while one task is processed: the three readings of the
  clock, and whether the work inside the \<open>try\<close> block finishes or raises an exception
  (a subclass of \<open>Exception\<close>) with the given message.
\<close>

datatype outcome = Done | Raised string

record run =
  started_at :: string
  outcome :: outcome
  completed_at :: string
  logged_at :: string

text \<open>
  The \<open>try\<close> block of \<open>process_next_task\<close>: \<open>Inl e\<close> when it raises \<open>e\<close>, \<open>Inr\<close> with
  the state it leaves otherwise. Looking up \<open>'description'\<close> in a task without one raises
  \<open>KeyError\<close> before any work is done (\<open>str\<close> of it is the key in single quotes). With
  \<open>running\<close> false the block returns during the work, leaving the task in progress.
\<close>

definition try_block :: "run \<Rightarrow> dict \<Rightarrow> VoiceIDE \<Rightarrow> string + VoiceIDE" where
  "try_block r cur s =
     (case map_of cur ''description'' of
        None \<Rightarrow> Inl ([CHR 0x27] @ ''description'' @ [CHR 0x27])
      | Some d \<Rightarrow>
          (case outcome r of
             Raised e \<Rightarrow> Inl e
           | Done \<Rightarrow>
               if \<not> running s then Inr s
               else
                 let done = AList.update ''result''
                              (JObj [(''message'', JStr ''Task completed successfully''),
                                     (''changes'', JArr [JStr ''Simulated changes''])])
                              (AList.update ''completed_at'' (JStr (completed_at r))
                                (AList.update ''status'' (JStr ''completed'') cur))
                 in Inr (s\<lparr>current_task := Some done,
                           history := history s @
                             [[(''timestamp'', JStr (logged_at r)),
                               (''task'', JObj done),
                               (''type'', JStr ''task_completed'')]]\<rparr>)))"

text \<open>The \<open>except Exception\<close> clause.\<close>

definition except_clause :: "run \<Rightarrow> string \<Rightarrow> dict \<Rightarrow> VoiceIDE \<Rightarrow> VoiceIDE" where
  "except_clause r e cur s =
     (let failed = AList.update ''error'' (JStr e)
                     (AList.update ''status'' (JStr ''failed'') cur)
      in s\<lparr>current_task := Some failed,
           logged := logged s @ [(ERROR, ''Task failed: '' @ e)],
           history := history s @
             [[(''timestamp'', JStr (logged_at r)),
               (''task'', JObj failed),
               (''error'', JStr e),
               (''type'', JStr ''task_failed'')]]\<rparr>)"

text \<open>
  From popping the head of the queue to the end of the \<open>except\<close> clause, for the head
  \<open>t\<close> and the state \<open>s\<close> whose queue has lost it.
\<close>

definition try_task :: "run \<Rightarrow> dict \<Rightarrow> VoiceIDE \<Rightarrow> VoiceIDE" where
  "try_task r t s =
     (let cur = AList.update ''started_at'' (JStr (started_at r))
                  (AList.update ''status'' (JStr ''in_progress'') t);
          s1 = s\<lparr>current_task := Some cur\<rparr>
      in case try_block r cur s1 of
           Inl e \<Rightarrow> except_clause r e cur s1
         | Inr s2 \<Rightarrow> s2)"

text \<open>
  \<open>process_next_task\<close>: an empty queue clears the current task and returns. Otherwise
  the head is processed and the \<open>finally\<close> clause saves the state and calls
  \<open>process_next_task\<close> again, on every path through the \<open>try\<close> statement. \<open>env k\<close> is the
  world's answer for the \<open>k\<close>-th task processed.
\<close>

function process_next_task :: "(nat \<Rightarrow> run) \<Rightarrow> nat \<Rightarrow> VoiceIDE \<Rightarrow> VoiceIDE" where
  "process_next_task env k s =
     (case task_queue s of
        [] \<Rightarrow> s\<lparr>current_task := None\<rparr>
      | t # q \<Rightarrow>
          process_next_task env (Suc k)
            (save_state (try_task (env k) t (s\<lparr>task_queue := q\<rparr>))))"
  by pat_completeness auto

lemma task_queue_save_state [simp]: "task_queue (save_state s) = task_queue s"
  by (simp add: save_state_def split: option.splits)

lemma task_queue_try_task [simp]: "task_queue (try_task r t s) = task_queue s"
  by (simp add: try_task_def try_block_def except_clause_def Let_def
           split: option.splits outcome.splits)

termination process_next_task
  by (relation "measure (\<lambda>(env, k, s). length (task_queue s))") auto

declare process_next_task.simps [simp del]

section \<open>Completing without a current task\<close>

text \<open>
  C10. When \<open>current_task_id\<close> is \<open>None\<close>, \<open>complete_current_task\<close> returns \<open>None\<close> and
  the planner it leaves is the planner it was given: the same tasks with the same
  status, result and error, and the same current pointer.
\<close>

theorem complete_without_current_is_noop:
  "current_task_id p = None \<Longrightarrow> complete_current_task res p = (None, p)"
  by (simp add: complete_current_task_def no_current_def)

theorem complete_without_current_is_noop_witness:
  "current_task_id (snd (create_task ''a'' None init_planner)) = None \<and>
   complete_current_task (Some (JStr ''r'')) (snd (create_task ''a'' None init_planner))
     = (None, snd (create_task ''a'' None init_planner))"
  using complete_without_current_is_noop
          [of "snd (create_task ''a'' None init_planner)" "Some (JStr ''r'')"]
  by (simp add: create_task_def init_planner_def Let_def)

end
